theory Spec2Isabelle
  imports Main "HOL-Library.Word" "HOL-Library.FSet" "HOL-Library.Log_Nat"
begin

section \<open>Product catalog: domain model\<close>

text \<open>
  A shallow embedding of the domain package of the product catalog service (Go):
  the Money and Discount value objects, the domain events, the Product aggregate with
  its change tracker, the pricing calculator, the outbox event repository and the
  update use case.  Pointers that may be nil are options, \<open>(T, error)\<close> results are
  sums with the error on the left, and a method that mutates its receiver returns the
  receiver's new state next to its error.
\<close>

subsection \<open>Errors\<close>

text \<open>
  The sentinel errors of the domain package, the errors made on the spot by
  \<open>errors.New\<close>, and the wrapping \<open>fmt.Errorf("%w: ...", err, ...)\<close>, which keeps
  the wrapped error and carries the formatted message.  \<open>runtime_panic\<close> stands for
  a Go run-time panic (a nil pointer dereference), where a method reads through a
  pointer that is nil.
\<close>

datatype error =
    ErrDiscountInvalidPercentage
  | ErrDiscountInvalidPeriod
  | ErrProductNotActive
  | ErrProductNotFound
  | ErrProductIDRequired
  | ErrProductNameRequired
  | ErrProductBasePriceRequired
  | ErrInvalidDiscountPeriod
  | ErrNoActiveDiscount
  | ErrInvalidStatus
  | ErrNegativeAmount
  | ErrCurrencyMismatch
  | ErrInvalidCurrency
  | ErrDivisionByZero
  | ErrInvalidDiscountAmount
  | errors_New string
  | fmt_Errorf_w error string
  | runtime_panic string

text \<open>The text \<open>err.Error()\<close> of an error.\<close>

primrec Error :: "error \<Rightarrow> string" where
  "Error ErrDiscountInvalidPercentage = ''discount percentage must be between 0 and 100''"
| "Error ErrDiscountInvalidPeriod = ''discount end date must be after start date''"
| "Error ErrProductNotActive = ''product is not active''"
| "Error ErrProductNotFound = ''product not found''"
| "Error ErrProductIDRequired = ''product id is required''"
| "Error ErrProductNameRequired = ''product name is required''"
| "Error ErrProductBasePriceRequired = ''product base price is required''"
| "Error ErrInvalidDiscountPeriod = ''invalid discount period''"
| "Error ErrNoActiveDiscount = ''product has no active discount''"
| "Error ErrInvalidStatus = ''invalid product status''"
| "Error ErrNegativeAmount = ''money amount cannot be negative''"
| "Error ErrCurrencyMismatch = ''currency mismatch''"
| "Error ErrInvalidCurrency = ''invalid currency code''"
| "Error ErrDivisionByZero = ''division by zero''"
| "Error ErrInvalidDiscountAmount = ''discount amount must be between 0 and 100''"
| "Error (errors_New msg) = msg"
| "Error (fmt_Errorf_w err msg) = msg"
| "Error (runtime_panic msg) = msg"

text \<open>\<open>errors.Is(err, target)\<close>: \<open>err\<close> is the target or wraps it.\<close>

primrec errors_Is :: "error \<Rightarrow> error \<Rightarrow> bool" where
  "errors_Is ErrDiscountInvalidPercentage t = (t = ErrDiscountInvalidPercentage)"
| "errors_Is ErrDiscountInvalidPeriod t = (t = ErrDiscountInvalidPeriod)"
| "errors_Is ErrProductNotActive t = (t = ErrProductNotActive)"
| "errors_Is ErrProductNotFound t = (t = ErrProductNotFound)"
| "errors_Is ErrProductIDRequired t = (t = ErrProductIDRequired)"
| "errors_Is ErrProductNameRequired t = (t = ErrProductNameRequired)"
| "errors_Is ErrProductBasePriceRequired t = (t = ErrProductBasePriceRequired)"
| "errors_Is ErrInvalidDiscountPeriod t = (t = ErrInvalidDiscountPeriod)"
| "errors_Is ErrNoActiveDiscount t = (t = ErrNoActiveDiscount)"
| "errors_Is ErrInvalidStatus t = (t = ErrInvalidStatus)"
| "errors_Is ErrNegativeAmount t = (t = ErrNegativeAmount)"
| "errors_Is ErrCurrencyMismatch t = (t = ErrCurrencyMismatch)"
| "errors_Is ErrInvalidCurrency t = (t = ErrInvalidCurrency)"
| "errors_Is ErrDivisionByZero t = (t = ErrDivisionByZero)"
| "errors_Is ErrInvalidDiscountAmount t = (t = ErrInvalidDiscountAmount)"
| "errors_Is (errors_New msg) t = (t = errors_New msg)"
| "errors_Is (fmt_Errorf_w err msg) t = (t = fmt_Errorf_w err msg \<or> errors_Is err t)"
| "errors_Is (runtime_panic msg) t = (t = runtime_panic msg)"

subsection \<open>Money\<close>

text \<open>
  \<open>amount\<close> is an \<open>int64\<close> in the smallest currency unit: a 64-bit word read as two's
  complement, so \<open>+\<close> and \<open>-\<close> wrap as Go's do.  The receiver of a method is a present
  Money; the other operand is a pointer that may be nil.
\<close>

type_synonym int64 = "64 word"

record Money =
  amount :: int64
  currency :: string


definition Equals :: "Money \<Rightarrow> Money option \<Rightarrow> bool" where
  "Equals m other =
     (case other of None \<Rightarrow> False
      | Some ot \<Rightarrow> amount m = amount ot \<and> currency m = currency ot)"

definition sameCurrency :: "Money \<Rightarrow> Money option \<Rightarrow> error option" where
  "sameCurrency m other =
     (case other of
        None \<Rightarrow> Some ErrCurrencyMismatch
      | Some ot \<Rightarrow>
          if currency m \<noteq> currency ot
          then Some (fmt_Errorf_w ErrCurrencyMismatch
                 (Error ErrCurrencyMismatch @ '': '' @ currency m @ '' vs '' @ currency ot))
          else None)"

definition nil_dereference :: error where
  "nil_dereference = runtime_panic ''invalid memory address or nil pointer dereference''"

definition Add :: "Money \<Rightarrow> Money option \<Rightarrow> error + Money" where
  "Add m other =
     (case sameCurrency m other of
        Some err \<Rightarrow> Inl err
      | None \<Rightarrow>
          (case other of
             None \<Rightarrow> Inl nil_dereference
           | Some ot \<Rightarrow> Inr \<lparr>amount = amount m + amount ot, currency = currency m\<rparr>))"

definition Subtract :: "Money \<Rightarrow> Money option \<Rightarrow> error + Money" where
  "Subtract m other =
     (case sameCurrency m other of
        Some err \<Rightarrow> Inl err
      | None \<Rightarrow>
          (case other of
             None \<Rightarrow> Inl nil_dereference
           | Some ot \<Rightarrow>
               (let result = amount m - amount ot
                in if result <s 0 then Inl ErrNegativeAmount
                   else Inr \<lparr>amount = result, currency = currency m\<rparr>)))"

definition IsGreaterThan :: "Money \<Rightarrow> Money option \<Rightarrow> error + bool" where
  "IsGreaterThan m other =
     (case sameCurrency m other of
        Some err \<Rightarrow> Inl err
      | None \<Rightarrow>
          (case other of
             None \<Rightarrow> Inl nil_dereference
           | Some ot \<Rightarrow> Inr (amount ot <s amount m)))"

definition IsLessThan :: "Money \<Rightarrow> Money option \<Rightarrow> error + bool" where
  "IsLessThan m other =
     (case sameCurrency m other of
        Some err \<Rightarrow> Inl err
      | None \<Rightarrow>
          (case other of
             None \<Rightarrow> Inl nil_dereference
           | Some ot \<Rightarrow> Inr (amount m <s amount ot)))"

definition IsZero :: "Money \<Rightarrow> bool" where
  "IsZero m = (amount m = 0)"

text \<open>
  The floating-point part of the code is a parameter: \<open>'f\<close> is the type of
  \<open>float64\<close> values, \<open>ParseFloat s\<close> is \<open>strconv.ParseFloat(s, 64)\<close> (\<open>None\<close> when
  it returns an error), \<open>lt_zero x\<close> and \<open>gt_hundred x\<close> are the comparisons
  \<open>x < 0\<close> and \<open>x > 100\<close>, and \<open>discounted a x\<close> is
  \<open>int64(math.Round(float64(a) * (1 - x/100)))\<close>.  What holds for every value of
  the parameter holds for Go's \<open>float64\<close>, which is the value \<open>binary64\<close> below.
\<close>

record 'f float64_ops =
  ParseFloat :: "string \<Rightarrow> 'f option"
  lt_zero :: "'f \<Rightarrow> bool"
  gt_hundred :: "'f \<Rightarrow> bool"
  discounted :: "int64 \<Rightarrow> 'f \<Rightarrow> int64"

definition ApplyPercentageDiscount ::
  "'f float64_ops \<Rightarrow> Money \<Rightarrow> 'f \<Rightarrow> error + Money" where
  "ApplyPercentageDiscount fl m pct =
     (if lt_zero fl pct \<or> gt_hundred fl pct then Inl ErrInvalidDiscountAmount
      else Inr \<lparr>amount = discounted fl (amount m) pct, currency = currency m\<rparr>)"

subsection \<open>IEEE-754 binary64\<close>

text \<open>
  Go's \<open>float64\<close>: a finite value is the rational number it stands for, next to the
  two infinities and NaN.  The two zeros are one value here; in the expression of
  \<open>ApplyPercentageDiscount\<close> the sign of a zero does not reach the result, since
  \<open>1 - x\<close> is 1 for either zero and either zero converts to the integer 0.

  \<open>rne x\<close> rounds a rational to the nearest binary64 value, ties to the even
  significand: with \<open>2 ^ e \<le> \<bar>x\<bar> < 2 ^ (e + 1)\<close> the values near \<open>x\<close> are the
  multiples of \<open>2 ^ (e - 52)\<close>, and of \<open>2 ^ (- 1074)\<close> in the subnormal range.  A result
  of size \<open>2 ^ 1024\<close> or more is an infinity.
\<close>

datatype float64 = Finite rat | PosInf | NegInf | NaN

definition floor_log2 :: "rat \<Rightarrow> int" where
  "floor_log2 x =
     (let (p, q) = quotient_of \<bar>x\<bar>;
          b = bitlen p - bitlen q
      in if 2 powi b \<le> \<bar>x\<bar> then b else b - 1)"

definition round_half_even :: "rat \<Rightarrow> int" where
  "round_half_even m =
     (let f = \<lfloor>m\<rfloor>; d = m - of_int f
      in if d < 1 / 2 then f
         else if 1 / 2 < d then f + 1
         else if even f then f else f + 1)"

definition rne :: "rat \<Rightarrow> rat" where
  "rne x =
     (if x = 0 then 0
      else let q = max (floor_log2 x - 52) (- 1074)
           in of_int (round_half_even (x / 2 powi q)) * 2 powi q)"

definition float64_of_rat :: "rat \<Rightarrow> float64" where
  "float64_of_rat x =
     (let y = rne x
      in if 2 powi 1024 \<le> y then PosInf
         else if y \<le> - (2 powi 1024) then NegInf
         else Finite y)"

text \<open>The conversion \<open>float64(a)\<close> of an \<open>int64\<close>.\<close>

definition float64_of_int64 :: "int64 \<Rightarrow> float64" where
  "float64_of_int64 a = float64_of_rat (of_int (sint a))"

text \<open>The quotient \<open>x / 100\<close>, the difference \<open>x - y\<close> and the product \<open>x * y\<close>.\<close>

fun float64_div_hundred :: "float64 \<Rightarrow> float64" where
  "float64_div_hundred (Finite r) = float64_of_rat (r / 100)"
| "float64_div_hundred PosInf = PosInf"
| "float64_div_hundred NegInf = NegInf"
| "float64_div_hundred NaN = NaN"

fun float64_sub :: "float64 \<Rightarrow> float64 \<Rightarrow> float64" where
  "float64_sub NaN y = NaN"
| "float64_sub x NaN = NaN"
| "float64_sub (Finite a) (Finite b) = float64_of_rat (a - b)"
| "float64_sub (Finite a) PosInf = NegInf"
| "float64_sub (Finite a) NegInf = PosInf"
| "float64_sub PosInf PosInf = NaN"
| "float64_sub PosInf y = PosInf"
| "float64_sub NegInf NegInf = NaN"
| "float64_sub NegInf y = NegInf"

definition float64_inf :: "bool \<Rightarrow> float64" where
  "float64_inf negative = (if negative then NegInf else PosInf)"

fun float64_mul :: "float64 \<Rightarrow> float64 \<Rightarrow> float64" where
  "float64_mul NaN y = NaN"
| "float64_mul x NaN = NaN"
| "float64_mul (Finite a) (Finite b) = float64_of_rat (a * b)"
| "float64_mul (Finite a) PosInf = (if a = 0 then NaN else float64_inf (a < 0))"
| "float64_mul (Finite a) NegInf = (if a = 0 then NaN else float64_inf (0 < a))"
| "float64_mul PosInf (Finite b) = (if b = 0 then NaN else float64_inf (b < 0))"
| "float64_mul NegInf (Finite b) = (if b = 0 then NaN else float64_inf (0 < b))"
| "float64_mul PosInf PosInf = PosInf"
| "float64_mul PosInf NegInf = NegInf"
| "float64_mul NegInf PosInf = NegInf"
| "float64_mul NegInf NegInf = PosInf"

text \<open>The comparison \<open>x < y\<close>, false when either side is NaN.\<close>

fun float64_less :: "float64 \<Rightarrow> float64 \<Rightarrow> bool" where
  "float64_less NaN y = False"
| "float64_less x NaN = False"
| "float64_less (Finite a) (Finite b) = (a < b)"
| "float64_less (Finite a) PosInf = True"
| "float64_less (Finite a) NegInf = False"
| "float64_less PosInf y = False"
| "float64_less NegInf NegInf = False"
| "float64_less NegInf y = True"

text \<open>
  \<open>math.Round\<close> rounds to the nearest integer, halves away from zero, and returns an
  infinity or NaN as it is.
\<close>

definition round_half_away :: "rat \<Rightarrow> int" where
  "round_half_away r = (if 0 \<le> r then \<lfloor>r + 1 / 2\<rfloor> else - \<lfloor>- r + 1 / 2\<rfloor>)"

fun math_Round :: "float64 \<Rightarrow> float64" where
  "math_Round (Finite r) = Finite (of_int (round_half_away r))"
| "math_Round PosInf = PosInf"
| "math_Round NegInf = NegInf"
| "math_Round NaN = NaN"

text \<open>
  The conversion \<open>int64(x)\<close> drops the fraction of a finite value.  Where the value
  does not fit an \<open>int64\<close>, or is an infinity or NaN, Go leaves the result to the
  platform: it is \<open>unfit x\<close> for the parameter \<open>unfit\<close>.
\<close>

definition trunc_toward_zero :: "rat \<Rightarrow> int" where
  "trunc_toward_zero r = (if 0 \<le> r then \<lfloor>r\<rfloor> else - \<lfloor>- r\<rfloor>)"

fun int64_of_float64 :: "(float64 \<Rightarrow> int64) \<Rightarrow> float64 \<Rightarrow> int64" where
  "int64_of_float64 unfit (Finite r) =
     (if - (2 ^ 63) \<le> trunc_toward_zero r \<and> trunc_toward_zero r < 2 ^ 63
      then word_of_int (trunc_toward_zero r)
      else unfit (Finite r))"
| "int64_of_float64 unfit PosInf = unfit PosInf"
| "int64_of_float64 unfit NegInf = unfit NegInf"
| "int64_of_float64 unfit NaN = unfit NaN"

text \<open>
  The operations of \<open>float64_ops\<close> on binary64.  \<open>strconv.ParseFloat\<close> stays a
  parameter, \<open>parse\<close>.
\<close>

definition binary64 ::
  "(string \<Rightarrow> float64 option) \<Rightarrow> (float64 \<Rightarrow> int64) \<Rightarrow> float64 float64_ops" where
  "binary64 parse unfit =
     \<lparr>ParseFloat = parse,
      lt_zero = (\<lambda>x. float64_less x (Finite 0)),
      gt_hundred = (\<lambda>x. float64_less (Finite 100) x),
      discounted = (\<lambda>a x. int64_of_float64 unfit
        (math_Round (float64_mul (float64_of_int64 a)
           (float64_sub (Finite 1) (float64_div_hundred x)))))\<rparr>"

text \<open>
  The value of \<open>float64(a) * (1 - x/100)\<close> for a finite percentage \<open>r\<close> when no
  operation overflows: every operation rounds its exact result.
\<close>

definition binary64_product :: "int64 \<Rightarrow> rat \<Rightarrow> rat" where
  "binary64_product a r = rne (rne (of_int (sint a)) * rne (1 - rne (r / 100)))"

text \<open>
  The amount as the specification gives it, for a base amount \<open>a\<close> and a percentage
  \<open>pct\<close>: \<open>a * (1 - pct/100)\<close> in exact arithmetic, rounded to the nearest integer,
  halves away from zero.
\<close>

definition specified_amount :: "int \<Rightarrow> rat \<Rightarrow> int" where
  "specified_amount a pct = round_half_away (of_int a * (1 - pct / 100))"

subsection \<open>Discount\<close>

text \<open>A \<open>time.Time\<close> is an instant, an integer count on the time line.\<close>

type_synonym Time = int

definition Before :: "Time \<Rightarrow> Time \<Rightarrow> bool" where
  "Before t u = (t < u)"

definition After :: "Time \<Rightarrow> Time \<Rightarrow> bool" where
  "After t u = (u < t)"

record Discount =
  percentage :: string
  startsAt :: Time
  endsAt :: Time

definition NewDiscount ::
  "'f float64_ops \<Rightarrow> string \<Rightarrow> Time \<Rightarrow> Time \<Rightarrow> error + Discount" where
  "NewDiscount fl pc s e =
     (case ParseFloat fl pc of
        None \<Rightarrow> Inl ErrDiscountInvalidPercentage
      | Some pct \<Rightarrow>
          if lt_zero fl pct \<or> gt_hundred fl pct then Inl ErrDiscountInvalidPercentage
          else if \<not> After e s then Inl ErrDiscountInvalidPeriod
          else Inr \<lparr>percentage = pc, startsAt = s, endsAt = e\<rparr>)"

definition IsValidAt :: "Discount \<Rightarrow> Time \<Rightarrow> bool" where
  "IsValidAt d now = (\<not> Before now (startsAt d) \<and> Before now (endsAt d))"

definition IsExpired :: "Discount \<Rightarrow> Time \<Rightarrow> bool" where
  "IsExpired d now = (\<not> Before now (endsAt d))"

definition IsUpcoming :: "Discount \<Rightarrow> Time \<Rightarrow> bool" where
  "IsUpcoming d now = Before now (startsAt d)"

subsection \<open>Pricing calculator\<close>

definition EffectivePrice ::
  "'f float64_ops \<Rightarrow> Money option \<Rightarrow> Discount option \<Rightarrow> Time \<Rightarrow> error + Money" where
  "EffectivePrice fl basePrice discount now =
     (case basePrice of
        None \<Rightarrow> Inl ErrProductBasePriceRequired
      | Some base \<Rightarrow>
          (case discount of
             None \<Rightarrow> Inr base
           | Some d \<Rightarrow>
               if \<not> IsValidAt d now then Inr base
               else (case ParseFloat fl (percentage d) of
                       None \<Rightarrow> Inl ErrDiscountInvalidPercentage
                     | Some pct \<Rightarrow> ApplyPercentageDiscount fl base pct)))"


definition IsDiscounted :: "Discount option \<Rightarrow> Time \<Rightarrow> bool" where
  "IsDiscounted discount now =
     (case discount of None \<Rightarrow> False | Some d \<Rightarrow> IsValidAt d now)"

subsection \<open>Domain events\<close>

text \<open>
  \<open>ProductStatus\<close> and \<open>Field\<close> are string types with named constants.
  \<open>DomainEvent\<close> is an interface; its six implementations in the domain package are
  the first six constructors, each with the fields of its struct in the order of the
  struct.  \<open>OtherEvent\<close> is any other implementation of the interface, given by its
  \<open>EventName\<close>, its \<open>OccurredAt\<close> and its \<open>ProductID\<close> when it has such a method.
\<close>

type_synonym ProductStatus = string
type_synonym Field = string

definition ProductStatusActive :: ProductStatus where
  "ProductStatusActive = ''active''"

definition ProductStatusInactive :: ProductStatus where
  "ProductStatusInactive = ''inactive''"

definition FieldName :: Field where "FieldName = ''name''"
definition FieldDiscount :: Field where "FieldDiscount = ''discount''"
definition FieldDescription :: Field where "FieldDescription = ''description''"
definition FieldCategory :: Field where "FieldCategory = ''category''"
definition FieldBasePrice :: Field where "FieldBasePrice = ''base_price''"
definition FieldStatus :: Field where "FieldStatus = ''status''"

datatype DomainEvent =
    ProductCreatedEvent string string string "Money option" ProductStatus Time
  | ProductUpdatedEvent string "Field list" Time
  | ProductActivatedEvent string Time
  | ProductDeactivatedEvent string Time
  | DiscountAppliedEvent string string Time Time Time
  | DiscountRemovedEvent string Time
  | OtherEvent string Time "string option"

fun EventName :: "DomainEvent \<Rightarrow> string" where
  "EventName (ProductCreatedEvent i n c b st t) = ''product.created''"
| "EventName (ProductUpdatedEvent i fs t) = ''product.updated''"
| "EventName (ProductActivatedEvent i t) = ''product.activated''"
| "EventName (ProductDeactivatedEvent i t) = ''product.deactivated''"
| "EventName (DiscountAppliedEvent i pc s e t) = ''product.discount_applied''"
| "EventName (DiscountRemovedEvent i t) = ''product.discount_removed''"
| "EventName (OtherEvent n t i) = n"

fun OccurredAt :: "DomainEvent \<Rightarrow> Time" where
  "OccurredAt (ProductCreatedEvent i n c b st t) = t"
| "OccurredAt (ProductUpdatedEvent i fs t) = t"
| "OccurredAt (ProductActivatedEvent i t) = t"
| "OccurredAt (ProductDeactivatedEvent i t) = t"
| "OccurredAt (DiscountAppliedEvent i pc s e t) = t"
| "OccurredAt (DiscountRemovedEvent i t) = t"
| "OccurredAt (OtherEvent n t i) = t"

subsection \<open>Change tracker\<close>

text \<open>
  \<open>Changes\<close> holds a \<open>map[Field]struct{}\<close>, a finite set of fields.  Each Product
  owns its tracker, so the set is a field of the aggregate.
\<close>

type_synonym Changes = "Field fset"

definition NewChanges :: Changes where
  "NewChanges = {||}"

definition Dirty :: "Changes \<Rightarrow> Field \<Rightarrow> bool" where
  "Dirty c f = (f |\<in>| c)"

definition MarkDirty :: "Changes \<Rightarrow> Field \<Rightarrow> Changes" where
  "MarkDirty c f = finsert f c"

definition Clear :: "Changes \<Rightarrow> Changes" where
  "Clear c = {||}"

subsection \<open>Product aggregate\<close>

record Product =
  id_p :: string
  name :: string
  description :: string
  category :: string
  basePrice :: "Money option"
  discount :: "Discount option"
  status :: ProductStatus
  changes :: Changes
  events :: "DomainEvent list"

text \<open>
  \<open>NewProduct\<close> takes the identifier that \<open>uuid.NewString()\<close> generates as its
  last argument.
\<close>

definition NewProduct ::
  "string \<Rightarrow> string \<Rightarrow> string \<Rightarrow> Money option \<Rightarrow> Time \<Rightarrow> string \<Rightarrow> error + Product" where
  "NewProduct nm descr cat price now uuid =
     (if nm = [] then Inl ErrProductNameRequired
      else if price = None then Inl ErrProductBasePriceRequired
      else Inr \<lparr>id_p = uuid, name = nm, description = descr, category = cat,
                basePrice = price, discount = None, status = ProductStatusActive,
                changes = NewChanges,
                events = [ProductCreatedEvent uuid nm cat price ProductStatusActive now]\<rparr>)"

definition Reconstitute ::
  "string \<Rightarrow> string \<Rightarrow> string \<Rightarrow> string \<Rightarrow> Money option \<Rightarrow> Discount option
     \<Rightarrow> ProductStatus \<Rightarrow> error + Product" where
  "Reconstitute i nm descr cat price disc st =
     (if i = [] then Inl ErrProductIDRequired
      else if nm = [] then Inl ErrProductNameRequired
      else if st \<noteq> ProductStatusActive \<and> st \<noteq> ProductStatusInactive then Inl ErrInvalidStatus
      else Inr \<lparr>id_p = i, name = nm, description = descr, category = cat,
                basePrice = price, discount = disc, status = st,
                changes = NewChanges, events = []\<rparr>)"

definition IsActive :: "Product \<Rightarrow> bool" where
  "IsActive p = (status p = ProductStatusActive)"

definition ClearEvents :: "Product \<Rightarrow> Product" where
  "ClearEvents p = p\<lparr>events := []\<rparr>"

text \<open>
  The business methods mutate the receiver: each returns its error (\<open>None\<close> for nil)
  with the state of the product after the call.  \<open>SetDescription\<close> and \<open>SetCategory\<close>
  and \<open>RecordUpdate\<close> have no result and return the state alone.
\<close>

definition SetName :: "Product \<Rightarrow> string \<Rightarrow> error option \<times> Product" where
  "SetName p nm =
     (if nm = [] then (Some ErrProductNameRequired, p)
      else if name p = nm then (None, p)
      else (None, p\<lparr>name := nm, changes := MarkDirty (changes p) FieldName\<rparr>))"

definition SetDescription :: "Product \<Rightarrow> string \<Rightarrow> Product" where
  "SetDescription p descr =
     (if description p = descr then p
      else p\<lparr>description := descr, changes := MarkDirty (changes p) FieldDescription\<rparr>)"

definition SetCategory :: "Product \<Rightarrow> string \<Rightarrow> Product" where
  "SetCategory p cat =
     (if category p = cat then p
      else p\<lparr>category := cat, changes := MarkDirty (changes p) FieldCategory\<rparr>)"

definition SetBasePrice :: "Product \<Rightarrow> Money option \<Rightarrow> error option \<times> Product" where
  "SetBasePrice p price =
     (if price = None then (Some ErrProductBasePriceRequired, p)
      else (None, p\<lparr>basePrice := price, changes := MarkDirty (changes p) FieldBasePrice\<rparr>))"

definition Activate :: "Product \<Rightarrow> Time \<Rightarrow> error option \<times> Product" where
  "Activate p now =
     (if status p = ProductStatusActive then (None, p)
      else (None, p\<lparr>status := ProductStatusActive,
                       changes := MarkDirty (changes p) FieldStatus,
                       events := events p @ [ProductActivatedEvent (id_p p) now]\<rparr>))"

definition Deactivate :: "Product \<Rightarrow> Time \<Rightarrow> error option \<times> Product" where
  "Deactivate p now =
     (if status p = ProductStatusInactive then (None, p)
      else
        (let p1 = p\<lparr>status := ProductStatusInactive,
                      changes := MarkDirty (changes p) FieldStatus\<rparr>;
             p2 = (if discount p1 \<noteq> None
                   then p1\<lparr>events := events p1 @ [DiscountRemovedEvent (id_p p1) now],
                           discount := None,
                           changes := MarkDirty (changes p1) FieldDiscount\<rparr>
                   else p1)
         in (None, p2\<lparr>events := events p2 @ [ProductDeactivatedEvent (id_p p2) now]\<rparr>)))"

definition ApplyDiscount :: "Product \<Rightarrow> Discount option \<Rightarrow> Time \<Rightarrow> error option \<times> Product" where
  "ApplyDiscount p disc now =
     (if status p \<noteq> ProductStatusActive then (Some ErrProductNotActive, p)
      else (case disc of
              None \<Rightarrow> (Some (errors_New ''discount must not be nil''), p)
            | Some d \<Rightarrow>
                if \<not> IsValidAt d now then (Some ErrInvalidDiscountPeriod, p)
                else (None, p\<lparr>discount := Some d,
                                 changes := MarkDirty (changes p) FieldDiscount,
                                 events := events p @
                                   [DiscountAppliedEvent (id_p p) (percentage d)
                                      (startsAt d) (endsAt d) now]\<rparr>)))"

definition RemoveDiscount :: "Product \<Rightarrow> Time \<Rightarrow> error option \<times> Product" where
  "RemoveDiscount p now =
     (if discount p = None then (Some ErrNoActiveDiscount, p)
      else (None, p\<lparr>discount := None,
                       changes := MarkDirty (changes p) FieldDiscount,
                       events := events p @ [DiscountRemovedEvent (id_p p) now]\<rparr>))"

text \<open>
  \<open>RecordUpdate\<close> ranges over the map of dirty fields and appends every key to a
  list.  Go leaves the order of a range over a map open, so the order is a parameter:
  \<open>range_keys c\<close> is the list of keys in the order in which the loop meets them, and
  \<open>map_range range_keys c\<close> says that it is such a list: every key of \<open>c\<close> once.
\<close>

definition map_range :: "(Changes \<Rightarrow> Field list) \<Rightarrow> Changes \<Rightarrow> bool" where
  "map_range range_keys c = (distinct (range_keys c) \<and> fset_of_list (range_keys c) = c)"

definition RecordUpdate :: "(Changes \<Rightarrow> Field list) \<Rightarrow> Product \<Rightarrow> Time \<Rightarrow> Product" where
  "RecordUpdate range_keys p now =
     (let dirty = range_keys (changes p)
      in if length dirty = 0 then p
         else p\<lparr>events := events p @ [ProductUpdatedEvent (id_p p) dirty now]\<rparr>)"

subsection \<open>Outbox event repository\<close>

text \<open>
  The payload of an outbox row is the JSON document that \<open>json.Marshal\<close> writes for
  the anonymous struct of the event, kept as a tree: an object lists its members in the
  order of the struct's fields.  \<open>JTime t\<close> is the string that
  \<open>Format("2006-01-02T15:04:05Z07:00")\<close> writes for the instant \<open>t\<close>.  The structs
  hold strings and lists of strings only, for which \<open>json.Marshal\<close> returns no error.

  \<open>JString s\<close> is the JSON string that reads back as \<open>s\<close>.  A Go string is a
  sequence of bytes; \<open>json.Marshal\<close> writes a string as UTF-8 and puts the replacement
  character U+FFFD in the place of every byte that does not begin a well-formed
  encoding.  \<open>json_string s\<close> is the string that it writes for \<open>s\<close>.
\<close>

datatype json = JString string | JTime Time | JArray "json list" | JObject "(string \<times> json) list"

definition byte_in :: "nat \<Rightarrow> nat \<Rightarrow> char \<Rightarrow> bool" where
  "byte_in lo hi c = (lo \<le> of_char c \<and> (of_char c :: nat) \<le> hi)"

definition utf8_one :: "char \<Rightarrow> bool" where
  "utf8_one a = byte_in 0x00 0x7F a"

definition utf8_two :: "char \<Rightarrow> char \<Rightarrow> bool" where
  "utf8_two a b = (byte_in 0xC2 0xDF a \<and> byte_in 0x80 0xBF b)"

definition utf8_three :: "char \<Rightarrow> char \<Rightarrow> char \<Rightarrow> bool" where
  "utf8_three a b c =
     ((byte_in 0xE0 0xE0 a \<and> byte_in 0xA0 0xBF b \<or>
       byte_in 0xE1 0xEC a \<and> byte_in 0x80 0xBF b \<or>
       byte_in 0xED 0xED a \<and> byte_in 0x80 0x9F b \<or>
       byte_in 0xEE 0xEF a \<and> byte_in 0x80 0xBF b) \<and>
      byte_in 0x80 0xBF c)"

definition utf8_four :: "char \<Rightarrow> char \<Rightarrow> char \<Rightarrow> char \<Rightarrow> bool" where
  "utf8_four a b c d =
     ((byte_in 0xF0 0xF0 a \<and> byte_in 0x90 0xBF b \<or>
       byte_in 0xF1 0xF3 a \<and> byte_in 0x80 0xBF b \<or>
       byte_in 0xF4 0xF4 a \<and> byte_in 0x80 0x8F b) \<and>
      byte_in 0x80 0xBF c \<and> byte_in 0x80 0xBF d)"

definition utf8_replacement :: string where
  "utf8_replacement = [CHR 0xEF, CHR 0xBF, CHR 0xBD]"

fun json_string :: "string \<Rightarrow> string" where
  "json_string (a # b # c # d # rest) =
     (if utf8_one a then a # json_string (b # c # d # rest)
      else if utf8_two a b then a # b # json_string (c # d # rest)
      else if utf8_three a b c then a # b # c # json_string (d # rest)
      else if utf8_four a b c d then a # b # c # d # json_string rest
      else utf8_replacement @ json_string (b # c # d # rest))"
| "json_string [a, b, c] =
     (if utf8_one a then a # json_string [b, c]
      else if utf8_two a b then a # b # json_string [c]
      else if utf8_three a b c then [a, b, c]
      else utf8_replacement @ json_string [b, c])"
| "json_string [a, b] =
     (if utf8_one a then a # json_string [b]
      else if utf8_two a b then [a, b]
      else utf8_replacement @ json_string [b])"
| "json_string [a] = (if utf8_one a then [a] else utf8_replacement)"
| "json_string [] = []"

datatype cell = CString string | CJSON json | CommitTimestamp

datatype Mutation = InsertMap string "(string \<times> cell) list"

text \<open>The constants of package \<open>m_outbox\<close>: the table, its columns and the status of a new row.\<close>

definition m_outbox_Table :: string where "m_outbox_Table = ''outbox_events''"
definition m_outbox_EventID :: string where "m_outbox_EventID = ''event_id''"
definition m_outbox_EventType :: string where "m_outbox_EventType = ''event_type''"
definition m_outbox_AggregateID :: string where "m_outbox_AggregateID = ''aggregate_id''"
definition m_outbox_Payload :: string where "m_outbox_Payload = ''payload''"
definition m_outbox_Status :: string where "m_outbox_Status = ''status''"
definition m_outbox_CreatedAt :: string where "m_outbox_CreatedAt = ''created_at''"
definition m_outbox_ProcessedAt :: string where "m_outbox_ProcessedAt = ''processed_at''"
definition m_outbox_StatusPending :: string where "m_outbox_StatusPending = ''pending''"

fun aggregateIDOf :: "DomainEvent \<Rightarrow> string" where
  "aggregateIDOf (ProductCreatedEvent i n c b st t) = i"
| "aggregateIDOf (ProductUpdatedEvent i fs t) = i"
| "aggregateIDOf (ProductActivatedEvent i t) = i"
| "aggregateIDOf (ProductDeactivatedEvent i t) = i"
| "aggregateIDOf (DiscountAppliedEvent i pc s e t) = i"
| "aggregateIDOf (DiscountRemovedEvent i t) = i"
| "aggregateIDOf (OtherEvent n t None) = []"
| "aggregateIDOf (OtherEvent n t (Some i)) = i"

fun marshalPayload :: "DomainEvent \<Rightarrow> error + json" where
  "marshalPayload (ProductCreatedEvent i n c b st t) =
     Inr (JObject [(''product_id'', JString (json_string i)),
                   (''name'', JString (json_string n)),
                   (''category'', JString (json_string c)),
                   (''status'', JString (json_string st))])"
| "marshalPayload (ProductUpdatedEvent i fs t) =
     Inr (JObject [(''product_id'', JString (json_string i)),
                   (''changed_fields'', JArray (map (\<lambda>f. JString (json_string f)) fs))])"
| "marshalPayload (ProductActivatedEvent i t) =
     Inr (JObject [(''product_id'', JString (json_string i))])"
| "marshalPayload (ProductDeactivatedEvent i t) =
     Inr (JObject [(''product_id'', JString (json_string i))])"
| "marshalPayload (DiscountAppliedEvent i pc s e t) =
     Inr (JObject [(''product_id'', JString (json_string i)),
                   (''percentage'', JString (json_string pc)),
                   (''starts_at'', JTime s), (''ends_at'', JTime e)])"
| "marshalPayload (DiscountRemovedEvent i t) =
     Inr (JObject [(''product_id'', JString (json_string i))])"
| "marshalPayload (OtherEvent n t i) = Inl (errors_New ''unknown event type'')"

text \<open>
  The message of the last error also names the Go type of the event, which an
  \<open>OtherEvent\<close> does not record.
\<close>

text \<open>
  \<open>InsertMut\<close> of the event repository; its first argument is the event id that
  \<open>uuid.NewString()\<close> generates.  \<open>None\<close> is the nil mutation.
\<close>

definition EventRepo_InsertMut :: "string \<Rightarrow> DomainEvent \<Rightarrow> Mutation option" where
  "EventRepo_InsertMut uuid event =
     (let aggregateID = aggregateIDOf event
      in case marshalPayload event of
           Inl err \<Rightarrow> None
         | Inr payload \<Rightarrow>
             Some (InsertMap m_outbox_Table
               [(m_outbox_EventID, CString uuid),
                (m_outbox_EventType, CString (EventName event)),
                (m_outbox_AggregateID, CString aggregateID),
                (m_outbox_Payload, CJSON payload),
                (m_outbox_Status, CString m_outbox_StatusPending),
                (m_outbox_CreatedAt, CommitTimestamp)]))"

subsection \<open>Commit plan and the update use case\<close>

text \<open>
  A plan is the list of its mutations.  The interactor reaches the repositories, the
  applier and the clock through interfaces; they are the fields of \<open>ports\<close>, over any
  type \<open>'mut\<close> of mutation descriptors, with \<open>None\<close> for a nil mutation and for a nil
  error.
\<close>

type_synonym 'mut Plan = "'mut list"

definition NewPlan :: "'mut Plan" where
  "NewPlan = []"

definition Plan_Add :: "'mut Plan \<Rightarrow> 'mut \<Rightarrow> 'mut Plan" where
  "Plan_Add p mut = p @ [mut]"

record 'mut ports =
  GetByID :: "string \<Rightarrow> error + Product"
  UpdateMut :: "Product \<Rightarrow> 'mut option"
  InsertMut :: "DomainEvent \<Rightarrow> 'mut option"
  Apply :: "'mut Plan \<Rightarrow> error option"
  Now :: Time

record UpdateProductRequest =
  ProductID :: string
  Name :: "string option"
  Description :: "string option"
  Category :: "string option"

text \<open>
  What a call of \<open>Execute\<close> did: it returned an error before it reached the applier,
  or it submitted a plan to the applier and returned the applier's result.
\<close>

datatype 'mut outcome = Returned error | Applied "'mut Plan" "error option"

text \<open>The setters and \<open>RecordUpdate\<close> that \<open>Execute\<close> calls on the loaded product.\<close>

definition apply_request ::
  "(Changes \<Rightarrow> Field list) \<Rightarrow> Product \<Rightarrow> UpdateProductRequest \<Rightarrow> Time
     \<Rightarrow> error option \<times> Product" where
  "apply_request range_keys product req now =
     (case (case Name req of None \<Rightarrow> (None, product) | Some n \<Rightarrow> SetName product n) of
        (Some err, p1) \<Rightarrow> (Some err, p1)
      | (None, p1) \<Rightarrow>
          (let p2 = (case Description req of None \<Rightarrow> p1 | Some d \<Rightarrow> SetDescription p1 d);
               p3 = (case Category req of None \<Rightarrow> p2 | Some c \<Rightarrow> SetCategory p2 c)
           in (None, RecordUpdate range_keys p3 now)))"

text \<open>The loop over the pending events: a nil mutation is not added to the plan.\<close>

fun add_event_muts :: "(DomainEvent \<Rightarrow> 'mut option) \<Rightarrow> DomainEvent list \<Rightarrow> 'mut Plan \<Rightarrow> 'mut Plan" where
  "add_event_muts ins [] plan = plan"
| "add_event_muts ins (event # rest) plan =
     add_event_muts ins rest
       (case ins event of None \<Rightarrow> plan | Some mut \<Rightarrow> Plan_Add plan mut)"

definition Execute ::
  "'mut ports \<Rightarrow> (Changes \<Rightarrow> Field list) \<Rightarrow> UpdateProductRequest \<Rightarrow> 'mut outcome" where
  "Execute it range_keys req =
     (case GetByID it (ProductID req) of
        Inl err \<Rightarrow> Returned err
      | Inr loaded \<Rightarrow>
          (case apply_request range_keys loaded req (Now it) of
             (Some err, product) \<Rightarrow> Returned err
           | (None, product) \<Rightarrow>
               (let plan0 = NewPlan;
                    plan1 = (case UpdateMut it product of
                               None \<Rightarrow> plan0 | Some mut \<Rightarrow> Plan_Add plan0 mut);
                    plan2 = add_event_muts (InsertMut it) (events product) plan1
                in Applied plan2 (Apply it plan2))))"

subsection \<open>Values used in the examples\<close>

definition mismatch_error :: "Money \<Rightarrow> Money \<Rightarrow> error" where
  "mismatch_error m ot =
     fmt_Errorf_w ErrCurrencyMismatch
       (''currency mismatch: '' @ currency m @ '' vs '' @ currency ot)"

text \<open>The part of the plan that comes from the state repository: one descriptor or none.\<close>

definition state_muts :: "'mut ports \<Rightarrow> Product \<Rightarrow> 'mut Plan" where
  "state_muts it product = (case UpdateMut it product of None \<Rightarrow> [] | Some mut \<Rightarrow> [mut])"

definition ex_usd :: Money where
  "ex_usd = \<lparr>amount = 100, currency = ''USD''\<rparr>"

definition ex_vnd :: Money where
  "ex_vnd = \<lparr>amount = 40, currency = ''VND''\<rparr>"

definition ex_discount :: Discount where
  "ex_discount = \<lparr>percentage = ''10'', startsAt = 0, endsAt = 100\<rparr>"

definition ex_discount2 :: Discount where
  "ex_discount2 = \<lparr>percentage = ''25'', startsAt = 10, endsAt = 60\<rparr>"

definition ex_product :: Product where
  "ex_product = \<lparr>id_p = ''p1'', name = ''Laptop'', description = ''a product'',
     category = ''electronics'', basePrice = Some ex_usd, discount = Some ex_discount,
     status = ProductStatusActive, changes = NewChanges, events = []\<rparr>"

definition ex_inactive :: Product where
  "ex_inactive = ex_product\<lparr>discount := None, status := ProductStatusInactive\<rparr>"

text \<open>One order of ranging over the dirty fields: the order of the constants.\<close>

definition ex_range :: "Changes \<Rightarrow> Field list" where
  "ex_range c = filter (\<lambda>f. f |\<in>| c)
     [FieldName, FieldDescription, FieldCategory, FieldBasePrice, FieldStatus, FieldDiscount]"


text \<open>
  \<open>strconv.ParseFloat\<close> on the percentages of the examples, whole numbers that
  binary64 holds exactly; this stand-in reports an error for every other string.  The
  conversion of a value that does not fit is the one of amd64, the smallest \<open>int64\<close>.
\<close>

definition ex_ParseFloat :: "string \<Rightarrow> float64 option" where
  "ex_ParseFloat s =
     (if s = ''0'' then Some (Finite 0)
      else if s = ''10'' then Some (Finite 10)
      else if s = ''30'' then Some (Finite 30)
      else if s = ''100'' then Some (Finite 100)
      else None)"

definition ex_unfit :: "float64 \<Rightarrow> int64" where
  "ex_unfit x = - 9223372036854775808"

definition ex_45 :: Money where
  "ex_45 = \<lparr>amount = 45, currency = ''USD''\<rparr>"

definition ex_discount30 :: Discount where
  "ex_discount30 = \<lparr>percentage = ''30'', startsAt = 0, endsAt = 100\<rparr>"

text \<open>
  The ports of the end-to-end tests: the event repository returns the nil mutation for
  every event and the committer returns no error.  The state repository here returns a
  descriptor, a string naming the product.
\<close>

definition ex_loaded :: Product where
  "ex_loaded = \<lparr>id_p = ''p1'', name = ''Old Name'', description = ''a product'',
     category = ''electronics'', basePrice = Some ex_usd, discount = None,
     status = ProductStatusActive, changes = NewChanges, events = []\<rparr>"

definition ex_ports :: "string ports" where
  "ex_ports =
     \<lparr>GetByID = (\<lambda>i. if i = ''p1'' then Inr ex_loaded else Inl ErrProductNotFound),
      UpdateMut = (\<lambda>p. Some (''update '' @ id_p p)),
      InsertMut = (\<lambda>event. None),
      Apply = (\<lambda>plan. None),
      Now = 7\<rparr>"

definition ex_req :: UpdateProductRequest where
  "ex_req = \<lparr>ProductID = ''p1'', Name = Some ''New Name'', Description = None, Category = None\<rparr>"

definition ex_updated :: Product where
  "ex_updated = ex_loaded\<lparr>name := ''New Name'', changes := {|FieldName|},
                          events := [ProductUpdatedEvent ''p1'' [FieldName] 7]\<rparr>"

section \<open>Properties\<close>

subsection \<open>Auxiliary facts\<close>

lemmas Field_defs =
  FieldName_def FieldDescription_def FieldCategory_def FieldBasePrice_def
  FieldStatus_def FieldDiscount_def

lemma fset_of_list_empty_iff: "fset_of_list xs = {||} \<longleftrightarrow> xs = []"
  by (cases xs) simp_all



text \<open>
  \<open>floor_log2 x\<close> is the binary exponent of \<open>x\<close>: \<open>2 ^ e \<le> \<bar>x\<bar> < 2 ^ (e + 1)\<close>.  The
  rounding to binary64 keeps a value between 0 and a power of two there.
\<close>

lemma floor_log2_le:
  assumes "x \<noteq> 0"
  shows "2 powi (floor_log2 x) \<le> \<bar>x\<bar>"
proof -
  obtain p q where pq: "quotient_of \<bar>x\<bar> = (p, q)"
    by (cases "quotient_of \<bar>x\<bar>") auto
  then have q: "0 < q" and x: "\<bar>x\<bar> = of_int p / of_int q"
    by (simp_all add: quotient_of_denom_pos quotient_of_div)
  from assms have "0 < \<bar>x\<bar>" by simp
  with x q have p: "0 < p"
    by (simp add: zero_less_divide_iff)
  let ?b = "bitlen p - bitlen q"
  show ?thesis
  proof (cases "2 powi ?b \<le> \<bar>x\<bar>")
    case True
    then show ?thesis by (simp add: floor_log2_def pq)
  next
    case False
    from bitlen_bounds [OF p] have lo: "2 ^ nat (bitlen p - 1) \<le> p" by simp
    from bitlen_bounds [OF q] have hi: "q < 2 ^ nat (bitlen q)" by simp
    from p have bp: "1 \<le> bitlen p"
      using bitlen_eq_zero_iff [of p] bitlen_nonneg [of p] by linarith
    have bq: "0 \<le> bitlen q" by (rule bitlen_nonneg)
    have lo': "(2::rat) powi (bitlen p - 1) \<le> of_int p"
    proof -
      have "(2::rat) powi (bitlen p - 1) = 2 ^ nat (bitlen p - 1)"
        using bp by (simp add: power_int_def)
      also have "\<dots> = of_int (2 ^ nat (bitlen p - 1))" by simp
      also have "\<dots> \<le> of_int p" using lo by (simp only: of_int_le_iff)
      finally show ?thesis .
    qed
    have hi': "of_int q \<le> (2::rat) powi (bitlen q)"
    proof -
      have "(of_int q :: rat) \<le> of_int (2 ^ nat (bitlen q))"
        using hi by (simp only: of_int_le_iff)
      also have "\<dots> = 2 powi (bitlen q)"
        using bq by (simp add: power_int_def)
      finally show ?thesis .
    qed
    have "(2::rat) powi (?b - 1) = 2 powi (bitlen p - 1) / 2 powi (bitlen q)"
      using power_int_diff [of "2::rat" "bitlen p - 1" "bitlen q"] by (simp add: algebra_simps)
    also have "\<dots> \<le> of_int p / of_int q"
      using lo' hi' q p by (intro frac_le) simp_all
    finally have "(2::rat) powi (?b - 1) \<le> \<bar>x\<bar>" by (simp add: x)
    with False show ?thesis by (simp add: floor_log2_def pq)
  qed
qed

lemma floor_log2_less:
  assumes "x \<noteq> 0"
  shows "\<bar>x\<bar> < 2 powi (floor_log2 x + 1)"
proof -
  obtain p q where pq: "quotient_of \<bar>x\<bar> = (p, q)"
    by (cases "quotient_of \<bar>x\<bar>") auto
  then have q: "0 < q" and x: "\<bar>x\<bar> = of_int p / of_int q"
    by (simp_all add: quotient_of_denom_pos quotient_of_div)
  from assms have "0 < \<bar>x\<bar>" by simp
  with x q have p: "0 < p"
    by (simp add: zero_less_divide_iff)
  let ?b = "bitlen p - bitlen q"
  show ?thesis
  proof (cases "2 powi ?b \<le> \<bar>x\<bar>")
    case False
    then show ?thesis by (simp add: floor_log2_def pq)
  next
    case True
    from bitlen_bounds [OF p] have hi: "p < 2 ^ nat (bitlen p)" by simp
    from bitlen_bounds [OF q] have lo: "2 ^ nat (bitlen q - 1) \<le> q" by simp
    from q have bq: "1 \<le> bitlen q"
      using bitlen_eq_zero_iff [of q] bitlen_nonneg [of q] by linarith
    have bp: "0 \<le> bitlen p" by (rule bitlen_nonneg)
    have hi': "of_int p < (2::rat) powi (bitlen p)"
    proof -
      have "(of_int p :: rat) < of_int (2 ^ nat (bitlen p))"
        using hi by (simp only: of_int_less_iff)
      also have "\<dots> = 2 powi (bitlen p)"
        using bp by (simp add: power_int_def)
      finally show ?thesis .
    qed
    have lo': "(2::rat) powi (bitlen q - 1) \<le> of_int q"
    proof -
      have "(2::rat) powi (bitlen q - 1) = of_int (2 ^ nat (bitlen q - 1))"
        using bq by (simp add: power_int_def)
      also have "\<dots> \<le> of_int q" using lo by (simp only: of_int_le_iff)
      finally show ?thesis .
    qed
    have "of_int p / of_int q < (2::rat) powi (bitlen p) / 2 powi (bitlen q - 1)"
      using hi' lo' p by (intro frac_less) simp_all
    also have "\<dots> = 2 powi (?b + 1)"
      using power_int_diff [of "2::rat" "bitlen p" "bitlen q - 1"] by (simp add: algebra_simps)
    finally have "\<bar>x\<bar> < 2 powi (?b + 1)" by (simp add: x)
    with True show ?thesis by (simp add: floor_log2_def pq)
  qed
qed

lemma round_half_even_le:
  assumes "m \<le> of_int N"
  shows "round_half_even m \<le> N"
proof (cases "m = of_int N")
  case True
  then show ?thesis by (simp add: round_half_even_def)
next
  case False
  with assms have "m < of_int N" by simp
  then have "\<lfloor>m\<rfloor> < N" by (simp add: floor_less_iff)
  then show ?thesis by (simp add: round_half_even_def Let_def)
qed

lemma round_half_even_nonneg:
  assumes "0 \<le> m"
  shows "0 \<le> round_half_even m"
proof -
  from assms have "0 \<le> \<lfloor>m\<rfloor>" by simp
  then show ?thesis by (simp add: round_half_even_def Let_def)
qed

lemma rne_bounds:
  assumes "0 \<le> x" and "x \<le> 2 powi k" and "- 1074 \<le> k"
  shows "0 \<le> rne x \<and> rne x \<le> 2 powi k"
proof (cases "x = 0")
  case True
  then show ?thesis by (simp add: rne_def)
next
  case False
  define q where "q = max (floor_log2 x - 52) (- 1074)"
  have r: "rne x = of_int (round_half_even (x / 2 powi q)) * 2 powi q"
    using False by (simp add: rne_def q_def Let_def)
  have pos: "(0::rat) < 2 powi q" by simp
  from floor_log2_le [OF False] assms(1,2) have "(2::rat) powi (floor_log2 x) \<le> 2 powi k"
    by simp
  then have "floor_log2 x \<le> k"
    by (metis not_le power_int_strict_increasing one_less_numeral_iff semiring_norm(76))
  with assms(3) have qk: "q \<le> k" by (simp add: q_def)
  have "x / 2 powi q \<le> 2 powi k / 2 powi q"
    using assms(2) pos by (simp add: divide_right_mono)
  also have "\<dots> = 2 powi (k - q)"
    by (simp add: power_int_diff)
  also have "\<dots> = of_int (2 ^ nat (k - q))"
    using qk by (simp add: power_int_def)
  finally have "round_half_even (x / 2 powi q) \<le> 2 ^ nat (k - q)"
    by (rule round_half_even_le)
  then have "(of_int (round_half_even (x / 2 powi q)) :: rat) \<le> of_int (2 ^ nat (k - q))"
    by (simp only: of_int_le_iff)
  also have "\<dots> = 2 powi (k - q)"
    using qk by (simp add: power_int_def)
  finally have "rne x \<le> 2 powi (k - q) * 2 powi q"
    unfolding r using pos by (simp add: mult_right_mono)
  also have "\<dots> = 2 powi k"
    using power_int_add [of "2::rat" "k - q" q] by simp
  finally have up: "rne x \<le> 2 powi k" .
  have "0 \<le> x / 2 powi q" using assms(1) by simp
  then have "0 \<le> round_half_even (x / 2 powi q)" by (rule round_half_even_nonneg)
  then have "0 \<le> rne x" unfolding r by simp
  with up show ?thesis by simp
qed

text \<open>
  For a base amount that is not negative and a percentage from 0 to 100 no operation of
  the discounted amount overflows, and the product lies between 0 and \<open>2 ^ 63\<close>.
\<close>

lemma float64_of_rat_Finite:
  assumes "0 \<le> x" and "x \<le> 2 powi k" and "- 1074 \<le> k" and "k < 1024"
  shows "float64_of_rat x = Finite (rne x)"
proof -
  from rne_bounds [OF assms(1-3)] have lo: "0 \<le> rne x" and hi: "rne x \<le> 2 powi k"
    by simp_all
  have "(2::rat) powi k < 2 powi 1024"
    using assms(4) by (intro power_int_strict_increasing) simp_all
  with hi have "rne x < 2 powi 1024" by simp
  moreover have "- ((2::rat) powi 1024) < 0" by simp
  ultimately show ?thesis
    using lo by (simp add: float64_of_rat_def Let_def)
qed

lemma binary64_product_value:
  assumes "0 \<le> sint a" and "0 \<le> r" and "r \<le> 100"
  shows "float64_mul (float64_of_int64 a)
           (float64_sub (Finite 1) (float64_div_hundred (Finite r))) =
         Finite (binary64_product a r)"
    and "0 \<le> binary64_product a r"
    and "binary64_product a r \<le> 2 ^ 63"
proof -
  define A :: rat where "A = of_int (sint a)"
  have "sint a < 2 ^ 63"
    using sint_lt [of a] by simp
  then have "sint a \<le> 2 ^ 63" by simp
  then have "A \<le> of_int (2 ^ 63)"
    unfolding A_def by (rule of_int_le_iff [THEN iffD2])
  then have a63: "A \<le> 2 powi 63" by simp
  have a0: "0 \<le> A"
    unfolding A_def using assms(1) by (simp only: of_int_0_le_iff)
  have fa: "float64_of_int64 a = Finite (rne A)"
    unfolding float64_of_int64_def A_def [symmetric]
    using a0 a63 by (rule float64_of_rat_Finite) simp_all
  from rne_bounds [OF a0 a63] have fa_b: "0 \<le> rne A" "rne A \<le> 2 powi 63"
    by simp_all
  have h0: "0 \<le> r / 100" using assms(2) by simp
  have h1: "r / 100 \<le> 2 powi 0" using assms(3) by simp
  have fh: "float64_div_hundred (Finite r) = Finite (rne (r / 100))"
    using float64_of_rat_Finite [OF h0 h1] by simp
  from rne_bounds [OF h0 h1] have hb: "0 \<le> rne (r / 100)" "rne (r / 100) \<le> 1"
    by simp_all
  have s0: "0 \<le> 1 - rne (r / 100)" using hb by simp
  have s1: "1 - rne (r / 100) \<le> 2 powi 0" using hb by simp
  have fs: "float64_sub (Finite 1) (Finite (rne (r / 100))) = Finite (rne (1 - rne (r / 100)))"
    using float64_of_rat_Finite [OF s0 s1] by simp
  from rne_bounds [OF s0 s1] have sb: "0 \<le> rne (1 - rne (r / 100))"
    "rne (1 - rne (r / 100)) \<le> 1" by simp_all
  let ?x = "rne A * rne (1 - rne (r / 100))"
  have p0: "0 \<le> ?x" using fa_b(1) sb(1) by simp
  have "?x \<le> 2 powi 63 * 1"
    using fa_b sb by (intro mult_mono) simp_all
  then have p1: "?x \<le> 2 powi 63" by simp
  have fm: "float64_mul (Finite (rne A)) (Finite (rne (1 - rne (r / 100)))) = Finite (rne ?x)"
    using float64_of_rat_Finite [OF p0 p1] by simp
  have v: "binary64_product a r = rne ?x"
    unfolding binary64_product_def A_def ..
  show "float64_mul (float64_of_int64 a)
           (float64_sub (Finite 1) (float64_div_hundred (Finite r))) =
         Finite (binary64_product a r)"
    by (simp only: fa fh fs fm v)
  from rne_bounds [OF p0 p1] show "0 \<le> binary64_product a r"
    and "binary64_product a r \<le> 2 ^ 63"
    unfolding v by simp_all
qed

text \<open>Rounding halves away from zero, and the two amounts of the example.\<close>

lemma trunc_toward_zero_of_int: "trunc_toward_zero (of_int n) = n"
  by (simp add: trunc_toward_zero_def)

lemma round_half_away_near:
  "\<bar>of_int (round_half_away v) - v\<bar> \<le> 1 / 2"
proof (cases "0 \<le> v")
  case True
  have "of_int \<lfloor>v + 1 / 2\<rfloor> \<le> v + 1 / 2" "v + 1 / 2 < of_int \<lfloor>v + 1 / 2\<rfloor> + 1"
    by linarith+
  then have "\<bar>of_int \<lfloor>v + 1 / 2\<rfloor> - v\<bar> \<le> 1 / 2"
    by linarith
  with True show ?thesis by (simp add: round_half_away_def)
next
  case False
  have "of_int \<lfloor>- v + 1 / 2\<rfloor> \<le> - v + 1 / 2" "- v + 1 / 2 < of_int \<lfloor>- v + 1 / 2\<rfloor> + 1"
    by linarith+
  then have "\<bar>- of_int \<lfloor>- v + 1 / 2\<rfloor> - v\<bar> \<le> 1 / 2"
    by linarith
  with False show ?thesis by (simp add: round_half_away_def)
qed

lemma round_half_away_tie:
  assumes "\<bar>of_int (round_half_away v) - v\<bar> = 1 / 2"
  shows "\<bar>v\<bar> < \<bar>of_int (round_half_away v)\<bar>"
proof (cases "0 \<le> v")
  case True
  let ?n = "\<lfloor>v + 1 / 2\<rfloor>"
  have r: "round_half_away v = ?n" using True by (simp add: round_half_away_def)
  have b: "v + 1 / 2 < of_int ?n + 1" by linarith
  from assms have "\<bar>of_int ?n - v\<bar> = 1 / 2" by (simp only: r)
  with b have "of_int ?n - v = 1 / 2" by (simp add: abs_if split: if_splits)
  with True have "\<bar>v\<bar> < \<bar>of_int ?n\<bar>" by simp
  then show ?thesis by (simp only: r)
next
  case False
  let ?n = "\<lfloor>- v + 1 / 2\<rfloor>"
  have r: "round_half_away v = - ?n" using False by (simp add: round_half_away_def)
  have b: "- v + 1 / 2 < of_int ?n + 1" by linarith
  from assms have "\<bar>of_int (- ?n) - v\<bar> = 1 / 2" by (simp only: r)
  with b have "of_int ?n + v = 1 / 2" by (simp add: abs_if split: if_splits)
  with False have "\<bar>v\<bar> < \<bar>of_int (- ?n)\<bar>" by simp
  then show ?thesis by (simp only: r)
qed

lemma round_half_away_nonneg: "0 \<le> v \<Longrightarrow> 0 \<le> round_half_away v"
  by (simp add: round_half_away_def)

lemma code_value_45_30: "round_half_away (rne (rne 45 * rne (1 - rne (3 / 10)))) = 31"
  by code_simp

lemma spec_value_45_30: "specified_amount 45 30 = 32"
  unfolding specified_amount_def by code_simp

text \<open>The conversion to \<open>int64\<close> of an integer that fits.\<close>

lemma sint_word_of_int_fits:
  assumes "- (2 ^ 63) \<le> n" and "n < 2 ^ 63"
  shows "sint (word_of_int n :: int64) = n"
  using assms by (simp add: sint_sbintrunc' signed_take_bit_int_eq_self)

lemma int64_of_float64_fits:
  assumes "- (2 ^ 63) \<le> n" and "n < 2 ^ 63"
  shows "int64_of_float64 unfit (Finite (of_int n)) = word_of_int n"
  using assms by (simp add: trunc_toward_zero_of_int)

text \<open>
  The discounted amount and the effective price on binary64, for a base amount that is
  not negative and a percentage from 0 to 100.
\<close>

lemma discounted_binary64:
  assumes "0 \<le> sint a" and "0 \<le> r" and "r \<le> 100"
  shows "discounted (binary64 parse unfit) a (Finite r) =
           int64_of_float64 unfit (Finite (of_int (round_half_away (binary64_product a r))))"
proof -
  have "discounted (binary64 parse unfit) a (Finite r) =
      int64_of_float64 unfit (math_Round (float64_mul (float64_of_int64 a)
        (float64_sub (Finite 1) (float64_div_hundred (Finite r)))))"
    by (simp add: binary64_def del: float64_div_hundred.simps)
  then show ?thesis
    by (simp only: binary64_product_value(1) [OF assms] math_Round.simps)
qed

lemma ApplyPercentageDiscount_binary64:
  assumes "0 \<le> sint (amount m)" and "0 \<le> r" and "r \<le> 100"
  shows "ApplyPercentageDiscount (binary64 parse unfit) m (Finite r) =
           Inr \<lparr>amount = int64_of_float64 unfit
                  (Finite (of_int (round_half_away (binary64_product (amount m) r)))),
                currency = currency m\<rparr>"
proof -
  have "\<not> lt_zero (binary64 parse unfit) (Finite r)"
    "\<not> gt_hundred (binary64 parse unfit) (Finite r)"
    using assms(2,3) by (simp_all add: binary64_def)
  then show ?thesis
    by (simp add: ApplyPercentageDiscount_def discounted_binary64 [OF assms])
qed

lemma EffectivePrice_binary64:
  assumes "0 \<le> sint (amount base)" and "parse (percentage d) = Some (Finite r)"
    and "0 \<le> r" and "r \<le> 100" and "IsValidAt d now"
  shows "EffectivePrice (binary64 parse unfit) (Some base) (Some d) now =
           Inr \<lparr>amount = int64_of_float64 unfit
                  (Finite (of_int (round_half_away (binary64_product (amount base) r)))),
                currency = currency base\<rparr>"
proof -
  have "ParseFloat (binary64 parse unfit) (percentage d) = Some (Finite r)"
    using assms(2) by (simp add: binary64_def)
  then show ?thesis
    using assms(5)
    by (simp add: EffectivePrice_def ApplyPercentageDiscount_binary64 [OF assms(1,3,4)])
qed

lemma ex_45_30:
  "0 \<le> sint (amount ex_45)" "ex_ParseFloat (percentage ex_discount30) = Some (Finite 30)"
  "IsValidAt ex_discount30 50" "currency ex_45 = ''USD''"
  "round_half_away (binary64_product (amount ex_45) 30) = 31"
  by (simp_all add: ex_45_def ex_ParseFloat_def ex_discount30_def IsValidAt_def Before_def
      binary64_product_def code_value_45_30)

text \<open>
  For a discount that \<open>NewDiscount\<close> has made, \<open>EffectivePrice\<close> returns no error: it
  parses the same string and makes the same two comparisons.
\<close>

lemma EffectivePrice_NewDiscount:
  "NewDiscount fl pc s e = Inr d \<Longrightarrow> \<exists>eff. EffectivePrice fl (Some base) (Some d) now = Inr eff"
  by (auto simp add: NewDiscount_def EffectivePrice_def ApplyPercentageDiscount_def
      split: option.splits if_splits)

lemma add_event_muts_map_filter:
  "add_event_muts ins es plan = plan @ List.map_filter ins es"
  by (induction es arbitrary: plan)
     (simp_all add: map_filter_simps Plan_Add_def split: option.split)

lemma ex_apply_request: "apply_request ex_range ex_loaded ex_req 7 = (None, ex_updated)"
  by (simp add: apply_request_def ex_req_def SetName_def ex_loaded_def ex_updated_def
      RecordUpdate_def MarkDirty_def NewChanges_def ex_range_def Field_defs)

text \<open>
  The event repository has a descriptor for each of the six events of the domain
  package; only an event of another type has none.
\<close>

lemma EventRepo_InsertMut_known:
  "(\<forall>n t i. event \<noteq> OtherEvent n t i) \<Longrightarrow> EventRepo_InsertMut uuid event \<noteq> None"
  by (cases event) (simp_all add: EventRepo_InsertMut_def)

lemma EventRepo_InsertMut_other: "EventRepo_InsertMut uuid (OtherEvent n t i) = None"
  by (simp add: EventRepo_InsertMut_def)

text \<open>\<open>NewProduct\<close> checks both the name and the base price.\<close>

lemma NewProduct_checks:
  "NewProduct [] descr cat price now uuid = Inl ErrProductNameRequired"
  "nm \<noteq> [] \<Longrightarrow> NewProduct nm descr cat None now uuid = Inl ErrProductBasePriceRequired"
  "NewProduct nm descr cat price now uuid = Inr p \<Longrightarrow> name p \<noteq> [] \<and> basePrice p \<noteq> None"
  by (auto simp add: NewProduct_def split: if_splits)

text \<open>The setters of name, description and category compare with the current value.\<close>

lemma setters_same_value:
  "snd (SetName p (name p)) = p"
  "SetDescription p (description p) = p"
  "SetCategory p (category p) = p"
  by (simp_all add: SetName_def SetDescription_def SetCategory_def)

subsection \<open>Commit of pending events\<close>

text \<open>
  C1, as stated: when a pending event of the mutated product has no mutation
  descriptor, the commit fails before a plan reaches the applier.  It does not hold.
  With the ports of the end-to-end tests, renaming the product leaves one pending
  \<open>Updated\<close> event, the event repository returns nil for it, and \<open>Execute\<close> submits
  the plan that holds the state descriptor alone and returns the applier's nil error.
\<close>

theorem Execute_skips_event_counterexample:
  "apply_request ex_range ex_loaded ex_req (Now ex_ports) = (None, ex_updated) \<and>
   events ex_updated = [ProductUpdatedEvent ''p1'' [FieldName] 7] \<and>
   InsertMut ex_ports (ProductUpdatedEvent ''p1'' [FieldName] 7) = None \<and>
   Execute ex_ports ex_range ex_req = Applied [''update p1''] None"
proof -
  have n: "Now ex_ports = 7" "GetByID ex_ports (ProductID ex_req) = Inr ex_loaded"
    by (simp_all add: ex_ports_def ex_req_def)
  have e: "events ex_updated = [ProductUpdatedEvent ''p1'' [FieldName] 7]"
    "id_p ex_updated = ''p1''"
    by (simp_all add: ex_updated_def ex_loaded_def)
  have i: "InsertMut ex_ports = (\<lambda>event. None)"
    "UpdateMut ex_ports = (\<lambda>p. Some (''update '' @ id_p p))"
    "Apply ex_ports = (\<lambda>plan. None)"
    by (simp_all add: ex_ports_def)
  show ?thesis
    by (simp add: Execute_def n ex_apply_request e i NewPlan_def Plan_Add_def)
qed

text \<open>
  C1, amended: once the product is loaded and the setters have succeeded, \<open>Execute\<close>
  always submits a plan and returns the applier's result.  The plan holds the state
  descriptor, when the state repository returns one, and then, in the order of the
  pending events, the descriptor of every event for which the event repository returns
  one; an event for which it returns nil is skipped.
\<close>

theorem Execute_submits_plan:
  assumes "GetByID it (ProductID req) = Inr loaded"
    and "apply_request range_keys loaded req (Now it) = (None, product)"
  shows "Execute it range_keys req =
           Applied (state_muts it product @ List.map_filter (InsertMut it) (events product))
             (Apply it (state_muts it product @
                        List.map_filter (InsertMut it) (events product)))"
  using assms
  by (simp add: Execute_def add_event_muts_map_filter state_muts_def NewPlan_def Plan_Add_def
      Let_def split: option.split)

text \<open>The amended C1 at the ports of the end-to-end tests.\<close>

theorem Execute_submits_plan_witness:
  "GetByID ex_ports (ProductID ex_req) = Inr ex_loaded \<and>
   apply_request ex_range ex_loaded ex_req (Now ex_ports) = (None, ex_updated) \<and>
   Execute ex_ports ex_range ex_req =
     Applied (state_muts ex_ports ex_updated @
              List.map_filter (InsertMut ex_ports) (events ex_updated))
       (Apply ex_ports (state_muts ex_ports ex_updated @
                        List.map_filter (InsertMut ex_ports) (events ex_updated)))"
proof -
  have g: "GetByID ex_ports (ProductID ex_req) = Inr ex_loaded"
    by (simp add: ex_ports_def ex_req_def)
  have a: "apply_request ex_range ex_loaded ex_req (Now ex_ports) = (None, ex_updated)"
    using ex_apply_request by (simp add: ex_ports_def)
  show ?thesis
    using g a Execute_submits_plan [OF g a] by blast
qed

subsection \<open>Constructors\<close>

text \<open>
  C2: a product that a constructor returns has a base price.  \<open>Reconstitute\<close> checks
  the id, the name and the status, and not the base price: called with a nil base price
  it returns a product, without error, whose base price is nil.
\<close>

theorem Reconstitute_nil_basePrice:
  "Reconstitute ''p1'' ''Laptop'' [] [] None None ProductStatusActive =
     Inr \<lparr>id_p = ''p1'', name = ''Laptop'', description = [], category = [],
          basePrice = None, discount = None, status = ProductStatusActive,
          changes = {||}, events = []\<rparr>"
  by (simp add: Reconstitute_def NewChanges_def)

subsection \<open>Setters\<close>

text \<open>
  C3: a setter called with the current value of its field is a no-op.  \<open>SetBasePrice\<close>
  does not compare: called with the current base price it marks the field dirty, and
  \<open>RecordUpdate\<close> then appends an \<open>Updated\<close> event for it.
\<close>

theorem SetBasePrice_same_value_marks_dirty:
  "SetBasePrice ex_product (basePrice ex_product) =
     (None, ex_product\<lparr>changes := {|FieldBasePrice|}\<rparr>) \<and>
   RecordUpdate ex_range (snd (SetBasePrice ex_product (basePrice ex_product))) 7 =
     ex_product\<lparr>changes := {|FieldBasePrice|},
                events := [ProductUpdatedEvent ''p1'' [FieldBasePrice] 7]\<rparr>"
  by (simp add: SetBasePrice_def ex_product_def MarkDirty_def NewChanges_def RecordUpdate_def
      ex_range_def Field_defs)

subsection \<open>Errors of the binary operations of Money\<close>

text \<open>
  C4, as stated: with a nil second operand the operations fail with an error other than
  CurrencyMismatch.  It does not hold: each of them returns \<open>ErrCurrencyMismatch\<close>
  itself.
\<close>

theorem Money_nil_operand_counterexample:
  "Add ex_usd None = Inl ErrCurrencyMismatch \<and>
   Subtract ex_usd None = Inl ErrCurrencyMismatch \<and>
   IsGreaterThan ex_usd None = Inl ErrCurrencyMismatch \<and>
   IsLessThan ex_usd None = Inl ErrCurrencyMismatch \<and>
   errors_Is ErrCurrencyMismatch ErrCurrencyMismatch"
  by (simp add: Add_def Subtract_def IsGreaterThan_def IsLessThan_def sameCurrency_def)

text \<open>
  C4, amended: with a nil second operand each of \<open>Add\<close>, \<open>Subtract\<close>,
  \<open>IsGreaterThan\<close> and \<open>IsLessThan\<close> fails with \<open>ErrCurrencyMismatch\<close> itself; with two
  operands of different currencies each fails with an error that wraps
  \<open>ErrCurrencyMismatch\<close> and names both currencies, an error other than the bare
  \<open>ErrCurrencyMismatch\<close> for which \<open>errors.Is(err, ErrCurrencyMismatch)\<close> holds.
\<close>

theorem Money_binary_operation_errors:
  "Add m None = Inl ErrCurrencyMismatch \<and>
   Subtract m None = Inl ErrCurrencyMismatch \<and>
   IsGreaterThan m None = Inl ErrCurrencyMismatch \<and>
   IsLessThan m None = Inl ErrCurrencyMismatch \<and>
   (currency m \<noteq> currency ot \<longrightarrow>
      Add m (Some ot) = Inl (mismatch_error m ot) \<and>
      Subtract m (Some ot) = Inl (mismatch_error m ot) \<and>
      IsGreaterThan m (Some ot) = Inl (mismatch_error m ot) \<and>
      IsLessThan m (Some ot) = Inl (mismatch_error m ot) \<and>
      errors_Is (mismatch_error m ot) ErrCurrencyMismatch \<and>
      mismatch_error m ot \<noteq> ErrCurrencyMismatch)"
  by (simp add: Add_def Subtract_def IsGreaterThan_def IsLessThan_def sameCurrency_def
      mismatch_error_def)

text \<open>The amended C4 at 100 USD and 40 VND.\<close>

theorem Money_binary_operation_errors_witness:
  "currency ex_usd \<noteq> currency ex_vnd \<and>
   mismatch_error ex_usd ex_vnd =
     fmt_Errorf_w ErrCurrencyMismatch ''currency mismatch: USD vs VND'' \<and>
   Add ex_usd (Some ex_vnd) = Inl (mismatch_error ex_usd ex_vnd) \<and>
   Subtract ex_usd (Some ex_vnd) = Inl (mismatch_error ex_usd ex_vnd) \<and>
   IsGreaterThan ex_usd (Some ex_vnd) = Inl (mismatch_error ex_usd ex_vnd) \<and>
   IsLessThan ex_usd (Some ex_vnd) = Inl (mismatch_error ex_usd ex_vnd)"
proof -
  have h: "currency ex_usd \<noteq> currency ex_vnd"
    by (simp add: ex_usd_def ex_vnd_def)
  have v: "mismatch_error ex_usd ex_vnd =
      fmt_Errorf_w ErrCurrencyMismatch ''currency mismatch: USD vs VND''"
    by (simp add: mismatch_error_def ex_usd_def ex_vnd_def)
  show ?thesis
    using h v Money_binary_operation_errors [of ex_usd ex_vnd] by blast
qed

subsection \<open>Deactivation\<close>

text \<open>
  C5: on an active product that holds a discount, \<open>Deactivate\<close> returns no error, sets
  the status to inactive, clears the discount and appends two events, the removal of
  the discount and then the deactivation; status and discount are marked dirty and
  nothing else changes.  A second \<open>Deactivate\<close>, at any time, returns no error and
  leaves the product as it is: no event, no dirty mark, no field changed.
\<close>

theorem Deactivate_with_discount:
  assumes "status p = ProductStatusActive" and "discount p = Some d"
  shows "Deactivate p now =
           (None, p\<lparr>status := ProductStatusInactive, discount := None,
                     changes := finsert FieldDiscount (finsert FieldStatus (changes p)),
                     events := events p @ [DiscountRemovedEvent (id_p p) now,
                                           ProductDeactivatedEvent (id_p p) now]\<rparr>)
         \<and> Deactivate (snd (Deactivate p now)) later = (None, snd (Deactivate p now))"
  using assms
  by (simp add: Deactivate_def MarkDirty_def ProductStatusActive_def
      ProductStatusInactive_def Let_def)

text \<open>C5 at an active product with a discount and no pending event.\<close>

theorem Deactivate_with_discount_witness:
  "status ex_product = ProductStatusActive \<and> discount ex_product = Some ex_discount \<and>
   Deactivate ex_product 50 =
     (None, ex_product\<lparr>status := ProductStatusInactive, discount := None,
                changes := {|FieldDiscount, FieldStatus|},
                events := [DiscountRemovedEvent ''p1'' 50, ProductDeactivatedEvent ''p1'' 50]\<rparr>) \<and>
   Deactivate (snd (Deactivate ex_product 50)) 51 = (None, snd (Deactivate ex_product 50))"
proof -
  have h1: "status ex_product = ProductStatusActive"
    by (simp add: ex_product_def)
  have h2: "discount ex_product = Some ex_discount"
    by (simp add: ex_product_def)
  have h3: "id_p ex_product = ''p1''" "events ex_product = []" "changes ex_product = {||}"
    by (simp_all add: ex_product_def NewChanges_def)
  note t = Deactivate_with_discount [OF h1 h2, of 50 51]
  show ?thesis
    using h1 h2 t [THEN conjunct1] t [THEN conjunct2] by (simp add: h3)
qed

subsection \<open>Applying a discount\<close>

text \<open>
  C6: on a product that is not active \<open>ApplyDiscount\<close> returns \<open>ErrProductNotActive\<close>
  whatever the discount is, a nil one or one valid at the current time included.  On an
  active product it returns \<open>ErrInvalidDiscountPeriod\<close> for a discount whose window
  does not hold the current time, and an error for a nil discount.  It returns no error
  only for an active product and a discount valid at the current time; and whenever it
  returns an error the product is as it was before the call: no field changed, nothing
  marked dirty, no event appended.
\<close>

theorem ApplyDiscount_fails_fast:
  "(status p \<noteq> ProductStatusActive \<longrightarrow>
      ApplyDiscount p disc now = (Some ErrProductNotActive, p)) \<and>
   (status p = ProductStatusActive \<and> \<not> IsValidAt d now \<longrightarrow>
      ApplyDiscount p (Some d) now = (Some ErrInvalidDiscountPeriod, p)) \<and>
   (status p = ProductStatusActive \<longrightarrow>
      ApplyDiscount p None now = (Some (errors_New ''discount must not be nil''), p)) \<and>
   (fst (ApplyDiscount p disc now) = None \<longleftrightarrow>
      status p = ProductStatusActive \<and> (\<exists>d'. disc = Some d' \<and> IsValidAt d' now)) \<and>
   (fst (ApplyDiscount p disc now) \<noteq> None \<longrightarrow> snd (ApplyDiscount p disc now) = p)"
  by (cases disc) (simp_all add: ApplyDiscount_def)

text \<open>
  C6 at an inactive product with a discount valid at the time of the call, and at an
  active product with a discount whose window has ended, with one whose window has not
  begun, and with no discount.
\<close>

theorem ApplyDiscount_fails_fast_witness:
  "status ex_inactive \<noteq> ProductStatusActive \<and> IsValidAt ex_discount 50 \<and>
   ApplyDiscount ex_inactive (Some ex_discount) 50 = (Some ErrProductNotActive, ex_inactive) \<and>
   status ex_product = ProductStatusActive \<and>
   \<not> IsValidAt ex_discount 100 \<and>
   ApplyDiscount ex_product (Some ex_discount) 100 = (Some ErrInvalidDiscountPeriod, ex_product) \<and>
   \<not> IsValidAt ex_discount2 5 \<and>
   ApplyDiscount ex_product (Some ex_discount2) 5 = (Some ErrInvalidDiscountPeriod, ex_product) \<and>
   ApplyDiscount ex_product None 50 =
     (Some (errors_New ''discount must not be nil''), ex_product) \<and>
   fst (ApplyDiscount ex_product (Some ex_discount2) 5) \<noteq> None \<and>
   snd (ApplyDiscount ex_product (Some ex_discount2) 5) = ex_product"
proof -
  have h1: "status ex_inactive \<noteq> ProductStatusActive"
    by (simp add: ex_inactive_def ProductStatusActive_def ProductStatusInactive_def)
  have h2: "status ex_product = ProductStatusActive"
    by (simp add: ex_product_def)
  have v: "IsValidAt ex_discount 50"
    by (simp add: IsValidAt_def Before_def ex_discount_def)
  have ended: "\<not> IsValidAt ex_discount 100"
    by (simp add: IsValidAt_def Before_def ex_discount_def)
  have upcoming: "\<not> IsValidAt ex_discount2 5"
    by (simp add: IsValidAt_def Before_def ex_discount2_def)
  note a = ApplyDiscount_fails_fast [of ex_inactive "Some ex_discount" 50 ex_discount]
  note b = ApplyDiscount_fails_fast [of ex_product "Some ex_discount" 100 ex_discount]
  note c = ApplyDiscount_fails_fast [of ex_product "Some ex_discount2" 5 ex_discount2]
  note n = ApplyDiscount_fails_fast [of ex_product None 50 ex_discount]
  from a h1 have r1: "ApplyDiscount ex_inactive (Some ex_discount) 50 =
      (Some ErrProductNotActive, ex_inactive)"
    by blast
  from b h2 ended have r2: "ApplyDiscount ex_product (Some ex_discount) 100 =
      (Some ErrInvalidDiscountPeriod, ex_product)"
    by blast
  from c h2 upcoming have r3: "ApplyDiscount ex_product (Some ex_discount2) 5 =
      (Some ErrInvalidDiscountPeriod, ex_product)"
    by blast
  from n h2 have r4: "ApplyDiscount ex_product None 50 =
      (Some (errors_New ''discount must not be nil''), ex_product)"
    by blast
  from r3 have r5: "fst (ApplyDiscount ex_product (Some ex_discount2) 5) \<noteq> None"
    by simp
  with c have r6: "snd (ApplyDiscount ex_product (Some ex_discount2) 5) = ex_product"
    by blast
  from h1 h2 v ended upcoming r1 r2 r3 r4 r5 r6 show ?thesis
    by blast
qed

text \<open>
  C10: on an active product that already holds a discount, \<open>ApplyDiscount\<close> with a
  discount valid at the current time returns no error, puts the new discount in the
  place of the old one, marks the discount dirty and appends one event, a
  \<open>DiscountApplied\<close> event of the new discount; no \<open>DiscountRemoved\<close> event is appended.
\<close>

theorem ApplyDiscount_replaces_discount:
  assumes "status p = ProductStatusActive" and "discount p = Some held" and "IsValidAt d now"
  shows "ApplyDiscount p (Some d) now =
           (None, p\<lparr>discount := Some d,
                     changes := finsert FieldDiscount (changes p),
                     events := events p @
                       [DiscountAppliedEvent (id_p p) (percentage d) (startsAt d) (endsAt d) now]\<rparr>)"
  using assms by (simp add: ApplyDiscount_def MarkDirty_def)

text \<open>C10 at a product that holds a 10 percent discount and receives one of 25 percent.\<close>

theorem ApplyDiscount_replaces_discount_witness:
  "status ex_product = ProductStatusActive \<and> discount ex_product = Some ex_discount \<and>
   IsValidAt ex_discount2 50 \<and>
   ApplyDiscount ex_product (Some ex_discount2) 50 =
     (None, ex_product\<lparr>discount := Some ex_discount2,
                changes := {|FieldDiscount|},
                events := [DiscountAppliedEvent ''p1'' ''25'' 10 60 50]\<rparr>)"
proof -
  have h1: "status ex_product = ProductStatusActive"
    by (simp add: ex_product_def)
  have h2: "discount ex_product = Some ex_discount"
    by (simp add: ex_product_def)
  have h3: "IsValidAt ex_discount2 50"
    by (simp add: IsValidAt_def Before_def ex_discount2_def)
  have h4: "id_p ex_product = ''p1''" "events ex_product = []" "changes ex_product = {||}"
    "percentage ex_discount2 = ''25''" "startsAt ex_discount2 = 10" "endsAt ex_discount2 = 60"
    by (simp_all add: ex_product_def NewChanges_def ex_discount2_def)
  show ?thesis
    using h1 h2 h3 ApplyDiscount_replaces_discount [OF h1 h2 h3] by (simp add: h4)
qed

subsection \<open>Discount amount\<close>



subsection \<open>Recording an update\<close>

text \<open>
  C9: whatever the order in which the range over the dirty fields meets them,
  \<open>RecordUpdate\<close> appends exactly one event when some field is dirty, an \<open>Updated\<close>
  event of the product whose list of changed fields holds every dirty field once and
  nothing else, and changes nothing else; when no field is dirty it leaves the product
  as it is.
\<close>

theorem RecordUpdate_one_event:
  assumes "map_range range_keys (changes p)"
  shows "(changes p \<noteq> {||} \<longrightarrow>
            (\<exists>fs. RecordUpdate range_keys p now =
                    p\<lparr>events := events p @ [ProductUpdatedEvent (id_p p) fs now]\<rparr> \<and>
                  distinct fs \<and> fset_of_list fs = changes p)) \<and>
         (changes p = {||} \<longrightarrow> RecordUpdate range_keys p now = p)"
proof (cases "range_keys (changes p) = []")
  case True
  from assms have "fset_of_list (range_keys (changes p)) = changes p"
    unfolding map_range_def by (rule conjunct2)
  with True have "changes p = {||}"
    by (metis fset_of_list_empty_iff)
  with True show ?thesis
    by (simp add: RecordUpdate_def)
next
  case False
  from assms have d: "distinct (range_keys (changes p))"
    and s: "fset_of_list (range_keys (changes p)) = changes p"
    unfolding map_range_def by (rule conjunct1, rule conjunct2)
  from False s have ne: "changes p \<noteq> {||}"
    by (metis fset_of_list_empty_iff)
  from False have "RecordUpdate range_keys p now =
      p\<lparr>events := events p @ [ProductUpdatedEvent (id_p p) (range_keys (changes p)) now]\<rparr>"
    by (simp add: RecordUpdate_def)
  with d s ne show ?thesis
    by blast
qed

text \<open>C9 at a product with a dirty name, and at a product with no dirty field.\<close>

theorem RecordUpdate_one_event_witness:
  "map_range ex_range (changes (ex_product\<lparr>changes := {|FieldName|}\<rparr>)) \<and>
   map_range ex_range (changes ex_product) \<and>
   changes (ex_product\<lparr>changes := {|FieldName|}\<rparr>) \<noteq> {||} \<and>
   changes ex_product = {||} \<and>
   RecordUpdate ex_range (ex_product\<lparr>changes := {|FieldName|}\<rparr>) 7 =
     ex_product\<lparr>changes := {|FieldName|},
                events := [ProductUpdatedEvent ''p1'' [FieldName] 7]\<rparr> \<and>
   RecordUpdate ex_range ex_product 7 = ex_product"
  using RecordUpdate_one_event [of ex_range "ex_product\<lparr>changes := {|FieldName|}\<rparr>" 7]
    RecordUpdate_one_event [of ex_range ex_product 7]
  by (simp add: ex_product_def map_range_def ex_range_def Field_defs
      NewChanges_def RecordUpdate_def)

subsection \<open>Effective price\<close>

text \<open>
  C7, as stated: the amount is \<open>amount * (1 - pct/100)\<close> rounded to the nearest integer,
  halves away from zero.  It does not hold.  For 45 minor units and 30 percent the
  exact product is 31.5 and the stated amount 32; on binary64 \<open>1 - 30/100\<close> is a value
  just below 0.7, the product is a value just below 31.5, and the effective price is 31.
\<close>

theorem EffectivePrice_binary64_counterexample:
  "0 \<le> sint (amount ex_45) \<and> ex_ParseFloat (percentage ex_discount30) = Some (Finite 30) \<and>
   IsValidAt ex_discount30 50 \<and>
   specified_amount (sint (amount ex_45)) 30 = 32 \<and>
   EffectivePrice (binary64 ex_ParseFloat ex_unfit) (Some ex_45) (Some ex_discount30) 50 =
     Inr \<lparr>amount = 31, currency = ''USD''\<rparr>"
proof -
  have s: "specified_amount (sint (amount ex_45)) 30 = 32"
    by (simp add: ex_45_def spec_value_45_30)
  have z: "(0::rat) \<le> 30" "(30::rat) \<le> 100" by simp_all
  have "EffectivePrice (binary64 ex_ParseFloat ex_unfit) (Some ex_45) (Some ex_discount30) 50 =
      Inr \<lparr>amount = int64_of_float64 ex_unfit (Finite (of_int 31)), currency = ''USD''\<rparr>"
    using EffectivePrice_binary64 [where parse = ex_ParseFloat and d = ex_discount30 and r = 30
        and base = ex_45 and now = 50 and unfit = ex_unfit, OF ex_45_30(1,2) z ex_45_30(3)]
    by (simp only: ex_45_30)
  also have "int64_of_float64 ex_unfit (Finite (of_int 31)) = 31"
    using int64_of_float64_fits [of 31 ex_unfit] by simp
  finally show ?thesis
    using s ex_45_30(1,2,3) by simp
qed

text \<open>
  C7, amended: for a base price whose amount is not negative, a discount whose
  percentage parses to a binary64 value from 0 to 100, and a time inside the window
  of the discount, the effective price has the currency of the base price, and its
  amount is the conversion to \<open>int64\<close> of \<open>n\<close>, where \<open>v\<close> is the binary64 value of
  \<open>float64(amount) * (1 - pct/100)\<close>, every operation rounded to the nearest binary64
  value, and \<open>n\<close> is the integer nearest to \<open>v\<close>, halves away from zero.  \<open>n\<close> lies
  between 0 and \<open>2 ^ 63\<close>; when it is below \<open>2 ^ 63\<close> the amount is \<open>n\<close> itself.
\<close>

theorem EffectivePrice_binary64_amount:
  assumes "0 \<le> sint (amount base)" and "parse (percentage d) = Some (Finite r)"
    and "0 \<le> r" and "r \<le> 100" and "IsValidAt d now"
  shows "let v = binary64_product (amount base) r; n = round_half_away v
         in EffectivePrice (binary64 parse unfit) (Some base) (Some d) now =
              Inr \<lparr>amount = int64_of_float64 unfit (Finite (of_int n)),
                   currency = currency base\<rparr> \<and>
            (n < 2 ^ 63 \<longrightarrow>
               int64_of_float64 unfit (Finite (of_int n)) = word_of_int n \<and>
               sint (word_of_int n :: int64) = n) \<and>
            0 \<le> n \<and> n \<le> 2 ^ 63 \<and>
            \<bar>of_int n - v\<bar> \<le> 1 / 2 \<and>
            (\<bar>of_int n - v\<bar> = 1 / 2 \<longrightarrow> \<bar>v\<bar> < \<bar>of_int n\<bar>)"
proof -
  define v where "v = binary64_product (amount base) r"
  define n where "n = round_half_away v"
  note b = binary64_product_value(2,3) [OF assms(1,3,4), folded v_def]
  have n0: "0 \<le> n" unfolding n_def using b(1) by (rule round_half_away_nonneg)
  have "v + 1 / 2 < 2 ^ 63 + 1" using b(2) by simp
  then have "\<lfloor>v + 1 / 2\<rfloor> < 2 ^ 63 + 1"
    by (simp add: floor_less_iff)
  then have n63: "n \<le> 2 ^ 63" unfolding n_def using b(1) by (simp add: round_half_away_def)
  have e: "EffectivePrice (binary64 parse unfit) (Some base) (Some d) now =
      Inr \<lparr>amount = int64_of_float64 unfit (Finite (of_int n)), currency = currency base\<rparr>"
    unfolding n_def v_def
    by (rule EffectivePrice_binary64 [where parse = parse and d = d and r = r, OF assms])
  have f: "int64_of_float64 unfit (Finite (of_int n)) = word_of_int n \<and>
      sint (word_of_int n :: int64) = n" if "n < 2 ^ 63"
    using that n0 int64_of_float64_fits [of n unfit] sint_word_of_int_fits [of n] by simp
  have near: "\<bar>of_int n - v\<bar> \<le> 1 / 2" unfolding n_def by (rule round_half_away_near)
  have tie: "\<bar>of_int n - v\<bar> = 1 / 2 \<Longrightarrow> \<bar>v\<bar> < \<bar>of_int n\<bar>"
    unfolding n_def by (rule round_half_away_tie)
  from e f n0 n63 near tie show ?thesis
    unfolding Let_def v_def [symmetric] n_def [symmetric] by blast
qed

text \<open>The amended C7 at 45 minor units and 30 percent, inside the window.\<close>

theorem EffectivePrice_binary64_amount_witness:
  "0 \<le> sint (amount ex_45) \<and> ex_ParseFloat (percentage ex_discount30) = Some (Finite 30) \<and>
   (0::rat) \<le> 30 \<and> (30::rat) \<le> 100 \<and> IsValidAt ex_discount30 50 \<and>
   round_half_away (binary64_product (amount ex_45) 30) = 31 \<and>
   EffectivePrice (binary64 ex_ParseFloat ex_unfit) (Some ex_45) (Some ex_discount30) 50 =
     Inr \<lparr>amount = 31, currency = currency ex_45\<rparr>"
proof -
  have z: "(0::rat) \<le> 30" "(30::rat) \<le> 100" by simp_all
  note t = EffectivePrice_binary64_amount [where parse = ex_ParseFloat and d = ex_discount30 and r = 30
      and base = ex_45 and now = 50 and unfit = ex_unfit, OF ex_45_30(1,2) z ex_45_30(3),
      unfolded Let_def ex_45_30(5)]
  from t have "EffectivePrice (binary64 ex_ParseFloat ex_unfit) (Some ex_45)
      (Some ex_discount30) 50 =
      Inr \<lparr>amount = int64_of_float64 ex_unfit (Finite (of_int 31)), currency = currency ex_45\<rparr>"
    by (rule conjunct1)
  moreover from t have "int64_of_float64 ex_unfit (Finite (of_int 31)) = word_of_int 31"
    by simp
  ultimately have "EffectivePrice (binary64 ex_ParseFloat ex_unfit) (Some ex_45)
      (Some ex_discount30) 50 = Inr \<lparr>amount = 31, currency = currency ex_45\<rparr>"
    by simp
  with z ex_45_30(1,2,3,5) show ?thesis by simp
qed

end
